theory Spec2Isabelle
  imports Main "HOL-Library.Sublist"
begin

section \<open>Assembly: Endgame -- the round state of \<open>src/App.jsx\<close>\<close>

text \<open>
  The component \<open>App\<close> keeps two pieces of React state, \<open>currentWord\<close> and
  \<open>guessedLetters\<close>, and recomputes everything else from them at each render. The
  model is a record of the two state cells and one HOL function for each constant the
  render computes, with the same name.

  A JavaScript string is modelled as a \<open>string\<close> (one \<open>char\<close> for each code unit),
  and the array \<open>guessedLetters\<close> as a list of strings: \<open>addGuessedLetter\<close> stores
  whatever value it is handed, so an element is a whole string, not a character.

  The modules \<open>./languages\<close> and \<open>./utils\<close> are imported by the component: the
  array \<open>languages\<close>, the word returned by \<open>getRandomWord()\<close> and the function
  \<open>getFarewellText\<close> are parameters of the model.
\<close>

subsection \<open>Data\<close>

record language =
  name :: string
  backgroundColor :: string
  color :: string

record round_state =
  currentWord :: string
  guessedLetters :: "string list"

datatype error = InvalidInputError | TypeError

datatype status_message = FarewellMessage string | YouWin | GameOverMessage | NoMessage

record chip =
  chip_className :: string
  chip_backgroundColor :: string
  chip_color :: string
  chip_key :: string
  chip_text :: string

record letter_span =
  span_className :: string
  span_text :: string

record key_button =
  btn_className :: string
  btn_key :: string
  btn_disabled :: bool
  btn_ariaDisabled :: bool
  btn_text :: string

datatype command = NewGame string | GuessLetter string

subsection \<open>String primitives\<close>

text \<open>\<open>word.includes(s)\<close> on strings: \<open>s\<close> occurs in \<open>word\<close> as a contiguous run.\<close>

definition str_includes :: "string \<Rightarrow> string \<Rightarrow> bool" where
  "str_includes word s = sublist s word"

text \<open>\<open>arr.includes(x)\<close> on arrays: some element equals \<open>x\<close>.\<close>

definition arr_includes :: "string list \<Rightarrow> string \<Rightarrow> bool" where
  "arr_includes arr x = (x \<in> set arr)"

text \<open>\<open>word.split("")\<close>: the one-character strings of \<open>word\<close>, in order.\<close>

definition split_chars :: "string \<Rightarrow> string list" where
  "split_chars word = map (\<lambda>c. [c]) word"

text \<open>\<open>toUpperCase\<close>, on the ASCII range the game uses.\<close>

definition upper_char :: "char \<Rightarrow> char" where
  "upper_char c =
     (if (97::nat) \<le> of_char c \<and> of_char c \<le> (122::nat)
      then char_of (of_char c - (32::nat)) else c)"

definition toUpperCase :: "string \<Rightarrow> string" where
  "toUpperCase s = map upper_char s"

subsection \<open>The state cells and the values derived at each render\<close>

text \<open>\<open>useState(() => getRandomWord())\<close> and \<open>useState([])\<close>; \<open>w\<close> is the word picked.\<close>

definition initial :: "string \<Rightarrow> round_state" where
  "initial w = \<lparr>currentWord = w, guessedLetters = []\<rparr>"

text \<open>\<open>languages.length - 1\<close>, a JavaScript number: \<open>-1\<close> for an empty array.\<close>

definition guessesLeft :: "language list \<Rightarrow> int" where
  "guessesLeft languages = int (length languages) - 1"

definition wrongGuessCount :: "round_state \<Rightarrow> nat" where
  "wrongGuessCount s =
     length (filter (\<lambda>letter. \<not> str_includes (currentWord s) letter) (guessedLetters s))"

definition isGameWon :: "round_state \<Rightarrow> bool" where
  "isGameWon s =
     list_all (\<lambda>letter. arr_includes (guessedLetters s) letter) (split_chars (currentWord s))"

definition isGameLost :: "language list \<Rightarrow> round_state \<Rightarrow> bool" where
  "isGameLost languages s = (int (wrongGuessCount s) \<ge> guessesLeft languages)"

definition isGameOver :: "language list \<Rightarrow> round_state \<Rightarrow> bool" where
  "isGameOver languages s = (isGameWon s \<or> isGameLost languages s)"

text \<open>\<open>guessedLetters[guessedLetters.length - 1]\<close>: \<open>undefined\<close> (here \<open>None\<close>) on the
  empty array.\<close>

definition lastGuessedLetter :: "round_state \<Rightarrow> string option" where
  "lastGuessedLetter s =
     (if guessedLetters s = [] then None else Some (last (guessedLetters s)))"

text \<open>\<open>lastGuessedLetter && !currentWord.includes(lastGuessedLetter)\<close>, read as a
  condition: \<open>undefined\<close> and the empty string are falsy.\<close>

definition isLastGuessCorrect :: "round_state \<Rightarrow> bool" where
  "isLastGuessCorrect s =
     (case lastGuessedLetter s of
        None \<Rightarrow> False
      | Some l \<Rightarrow> l \<noteq> [] \<and> \<not> str_includes (currentWord s) l)"

definition alphabet :: string where
  "alphabet = ''abcdefghijklmnopqrstuvwxyz''"

text \<open>The condition \<open>!isGameOver && isLastGuessCorrect\<close>: it sets the class
  \<open>farewell\<close> in \<open>gameStatusClass\<close> and is the first test of \<open>gameStatus()\<close>.\<close>

definition farewellEligible :: "language list \<Rightarrow> round_state \<Rightarrow> bool" where
  "farewellEligible languages s = (\<not> isGameOver languages s \<and> isLastGuessCorrect s)"

subsection \<open>The two state updates\<close>

text \<open>The updater handed to \<open>setGuessedLetters\<close>, applied to the previous array.\<close>

definition addGuessedLetter :: "round_state \<Rightarrow> string \<Rightarrow> round_state" where
  "addGuessedLetter s letter =
     s\<lparr>guessedLetters :=
         (if arr_includes (guessedLetters s) letter
          then guessedLetters s
          else guessedLetters s @ [letter])\<rparr>"

text \<open>\<open>newGame\<close> sets both cells in one handler; \<open>w\<close> is what \<open>getRandomWord()\<close> returned.\<close>

definition newGame :: "string \<Rightarrow> round_state \<Rightarrow> round_state" where
  "newGame w s = s\<lparr>currentWord := w, guessedLetters := []\<rparr>"

text \<open>The guess command as a call that either returns or throws. The body of
  \<open>addGuessedLetter\<close> has no \<open>throw\<close> and calls nothing that throws, so the
  call returns for every argument.\<close>

definition guessLetter :: "round_state \<Rightarrow> string \<Rightarrow> error + round_state" where
  "guessLetter s letter = Inr (addGuessedLetter s letter)"

subsection \<open>What the render shows\<close>

text \<open>\<open>gameStatus()\<close>. The read \<open>languages[wrongGuessCount - 1]\<close> is \<open>undefined\<close>
  outside the array, and \<open>.name\<close> on it throws a TypeError.\<close>

definition gameStatus ::
  "(string \<Rightarrow> string) \<Rightarrow> language list \<Rightarrow> round_state \<Rightarrow> error + status_message" where
  "gameStatus getFarewellText languages s =
     (if \<not> isGameOver languages s \<and> isLastGuessCorrect s then
        (let i = int (wrongGuessCount s) - 1 in
         if 0 \<le> i \<and> i < int (length languages)
         then Inr (FarewellMessage (getFarewellText (name (languages ! nat i))))
         else Inl TypeError)
      else if isGameWon s then Inr YouWin
      else if isGameLost languages s then Inr GameOverMessage
      else Inr NoMessage)"

definition isLanguageLost :: "round_state \<Rightarrow> nat \<Rightarrow> bool" where
  "isLanguageLost s index = (index < wrongGuessCount s)"

definition languageElements :: "language list \<Rightarrow> round_state \<Rightarrow> chip list" where
  "languageElements languages s =
     map (\<lambda>(lang, index).
            \<lparr>chip_className = ''chip '' @ (if isLanguageLost s index then ''lost'' else ''''),
             chip_backgroundColor = backgroundColor lang,
             chip_color = color lang,
             chip_key = name lang,
             chip_text = name lang\<rparr>)
         (zip languages [0 ..< length languages])"

definition letterElements :: "language list \<Rightarrow> round_state \<Rightarrow> letter_span list" where
  "letterElements languages s =
     map (\<lambda>letter.
            let revealLetter = (isGameLost languages s \<or> arr_includes (guessedLetters s) letter) in
            \<lparr>span_className =
               (if isGameLost languages s \<and> \<not> arr_includes (guessedLetters s) letter
                then ''missed-letter'' else ''''),
             span_text = (if revealLetter then toUpperCase letter else '''')\<rparr>)
         (split_chars (currentWord s))"

text \<open>One button of the keyboard; \<open>keyboardElements\<close> builds it for each letter of
  \<open>alphabet\<close>.\<close>

definition keyButton :: "language list \<Rightarrow> round_state \<Rightarrow> string \<Rightarrow> key_button" where
  "keyButton languages s letter =
     (let isGuessed = arr_includes (guessedLetters s) letter;
          isCorrect = (isGuessed \<and> str_includes (currentWord s) letter);
          isWrong = (isGuessed \<and> \<not> str_includes (currentWord s) letter)
      in \<lparr>btn_className = (if isCorrect then ''correct'' else if isWrong then ''wrong'' else ''''),
          btn_key = letter,
          btn_disabled = isGameOver languages s,
          btn_ariaDisabled = arr_includes (guessedLetters s) letter,
          btn_text = toUpperCase letter\<rparr>)"

definition keyboardElements :: "language list \<Rightarrow> round_state \<Rightarrow> key_button list" where
  "keyboardElements languages s = map (keyButton languages s) (split_chars alphabet)"

text \<open>A click on a button: a disabled button dispatches no click event, an enabled
  one runs \<open>onClick\<close>, which is \<open>addGuessedLetter(letter)\<close>.\<close>

definition click :: "key_button \<Rightarrow> round_state \<Rightarrow> round_state" where
  "click b s = (if btn_disabled b then s else addGuessedLetter s (btn_key b))"

subsection \<open>Command sequences\<close>

text \<open>The two updates called directly, one after the other.\<close>

fun engine_step :: "round_state \<Rightarrow> command \<Rightarrow> round_state" where
  "engine_step s (NewGame w) = newGame w s"
| "engine_step s (GuessLetter letter) = addGuessedLetter s letter"

definition run_engine :: "string \<Rightarrow> command list \<Rightarrow> round_state" where
  "run_engine w cmds = foldl engine_step (initial w) cmds"

text \<open>The same commands issued through the rendered view: a guess is a click on the
  button of that letter, as rendered from the state at that moment.\<close>

fun view_step :: "language list \<Rightarrow> round_state \<Rightarrow> command \<Rightarrow> round_state" where
  "view_step languages s (NewGame w) = newGame w s"
| "view_step languages s (GuessLetter letter) = click (keyButton languages s letter) s"

definition run_view :: "language list \<Rightarrow> string \<Rightarrow> command list \<Rightarrow> round_state" where
  "run_view languages w cmds = foldl (view_step languages) (initial w) cmds"

text \<open>A command whose word, if it picks one, is non-empty (what the word list of
  \<open>getRandomWord\<close> is meant to hold).\<close>

fun picks_nonempty :: "command \<Rightarrow> bool" where
  "picks_nonempty (NewGame w) = (w \<noteq> [])"
| "picks_nonempty (GuessLetter letter) = True"

text \<open>Modelled from the spec: the array \<open>languages\<close> of \<open>./languages\<close> is not in the
  source at hand; the spec gives its length as 8. A sample ladder of that length, the
  concrete input of the scenarios; only its length matters to the rules.\<close>

definition ladder8 :: "language list" where
  "ladder8 = map (\<lambda>n. \<lparr>name = n, backgroundColor = ''#000000'', color = ''#ffffff''\<rparr>)
     [''L0'', ''L1'', ''L2'', ''L3'', ''L4'', ''L5'', ''L6'', ''L7'']"

text \<open>The seven guesses of the losing scenario, none of them a letter of \<open>cat\<close>.\<close>

definition seven_wrong :: "string list" where
  "seven_wrong = [''x'', ''y'', ''z'', ''q'', ''w'', ''e'', ''r'']"

section \<open>Basic facts\<close>

subsection \<open>Strings and the win test\<close>

lemma str_includes_single: "str_includes w [c] \<longleftrightarrow> c \<in> set w"
proof (induction w)
  case Nil
  show ?case by (simp add: str_includes_def)
next
  case (Cons a w)
  then show ?case by (auto simp: str_includes_def sublist_Cons_right)
qed

lemma str_includes_empty: "str_includes w []"
  by (simp add: str_includes_def)

lemma isGameWon_iff: "isGameWon s \<longleftrightarrow> (\<forall>c \<in> set (currentWord s). [c] \<in> set (guessedLetters s))"
  by (simp add: isGameWon_def split_chars_def arr_includes_def list_all_iff)

lemma won_if_letters_guessed:
  "set (split_chars (currentWord s)) \<subseteq> set (guessedLetters s) \<Longrightarrow> isGameWon s"
  by (auto simp: isGameWon_iff split_chars_def)

lemma won_status:
  "isGameWon s \<Longrightarrow> gameStatus getFarewellText languages s = Inr YouWin"
  by (simp add: gameStatus_def isGameOver_def)

subsection \<open>One guess\<close>

lemma set_guessedLetters_add:
  "set (guessedLetters (addGuessedLetter s l)) = insert l (set (guessedLetters s))"
  by (auto simp: addGuessedLetter_def arr_includes_def)

lemma currentWord_add: "currentWord (addGuessedLetter s l) = currentWord s"
  by (simp add: addGuessedLetter_def)

lemma wrongGuessCount_add_correct:
  "str_includes (currentWord s) l \<Longrightarrow> wrongGuessCount (addGuessedLetter s l) = wrongGuessCount s"
  by (simp add: wrongGuessCount_def addGuessedLetter_def)

lemma wrongGuessCount_add_mono: "wrongGuessCount s \<le> wrongGuessCount (addGuessedLetter s l)"
  by (simp add: wrongGuessCount_def addGuessedLetter_def)

lemma isGameWon_add_wrong:
  assumes "\<not> str_includes (currentWord s) l"
  shows "isGameWon (addGuessedLetter s l) = isGameWon s"
proof -
  have "[c] \<noteq> l" if "c \<in> set (currentWord s)" for c
    using that assms str_includes_single by blast
  then show ?thesis
    by (auto simp: isGameWon_iff set_guessedLetters_add currentWord_add)
qed

lemma add_keeps_exclusive:
  assumes "\<not> isGameOver languages s"
  shows "\<not> (isGameWon (addGuessedLetter s l) \<and> isGameLost languages (addGuessedLetter s l))"
proof (cases "str_includes (currentWord s) l")
  case True
  then show ?thesis
    using assms by (simp add: isGameOver_def isGameLost_def wrongGuessCount_add_correct)
next
  case False
  then show ?thesis
    using assms by (simp add: isGameOver_def isGameWon_add_wrong)
qed

lemma click_keyButton:
  "click (keyButton languages s l) s = (if isGameOver languages s then s else addGuessedLetter s l)"
  by (simp add: click_def keyButton_def Let_def)

lemma newGame_exclusive:
  "w \<noteq> [] \<Longrightarrow> \<not> isGameWon (newGame w s)"
  by (cases w) (auto simp: isGameWon_iff newGame_def)

lemma view_step_exclusive:
  assumes "\<not> (isGameWon s \<and> isGameLost languages s)"
    and "picks_nonempty c"
  shows "\<not> (isGameWon (view_step languages s c) \<and> isGameLost languages (view_step languages s c))"
proof (cases c)
  case (NewGame w)
  then show ?thesis using assms(2) by (simp add: newGame_exclusive)
next
  case (GuessLetter l)
  then show ?thesis
    using assms(1) add_keeps_exclusive [of languages s l] by (simp add: click_keyButton)
qed

lemma view_guess_step:
  assumes "\<not> isGameLost languages (view_step languages s (GuessLetter l))"
  shows "\<not> isGameLost languages s
         \<and> (isGameWon s \<longrightarrow> isGameWon (view_step languages s (GuessLetter l)))
         \<and> (\<not> isGameWon s \<longrightarrow>
              set (guessedLetters (view_step languages s (GuessLetter l)))
                = insert l (set (guessedLetters s)))"
proof -
  have nl: "\<not> isGameLost languages s"
    using assms wrongGuessCount_add_mono [of s l]
    by (auto simp: click_keyButton isGameLost_def split: if_splits)
  then show ?thesis
    by (simp add: click_keyButton isGameOver_def set_guessedLetters_add)
qed

lemma view_step_currentWord:
  "currentWord (view_step languages s (GuessLetter l)) = currentWord s"
  by (simp add: click_keyButton currentWord_add)

lemma addGuessedLetter_update:
  "(addGuessedLetter s l)\<lparr>guessedLetters := filter P (guessedLetters (addGuessedLetter s l))\<rparr>
    = (if P l then addGuessedLetter (s\<lparr>guessedLetters := filter P (guessedLetters s)\<rparr>) l
       else s\<lparr>guessedLetters := filter P (guessedLetters s)\<rparr>)"
  by (simp add: addGuessedLetter_def arr_includes_def)

subsection \<open>Sequences of commands\<close>

lemma foldl_view_exclusive:
  "\<not> (isGameWon s \<and> isGameLost languages s) \<Longrightarrow> list_all picks_nonempty cmds \<Longrightarrow>
   \<not> (isGameWon (foldl (view_step languages) s cmds)
       \<and> isGameLost languages (foldl (view_step languages) s cmds))"
proof (induction cmds arbitrary: s)
  case Nil
  then show ?case by simp
next
  case (Cons c cmds)
  have "\<not> (isGameWon (view_step languages s c) \<and> isGameLost languages (view_step languages s c))"
    using Cons.prems by (intro view_step_exclusive) simp_all
  then show ?case using Cons.IH Cons.prems(2) by simp
qed

lemma foldl_engine_guesses:
  "currentWord (foldl engine_step s (map GuessLetter guesses)) = currentWord s
   \<and> set (guessedLetters (foldl engine_step s (map GuessLetter guesses)))
       = set (guessedLetters s) \<union> set guesses"
  by (induction guesses arbitrary: s) (auto simp: set_guessedLetters_add currentWord_add)

lemma foldl_view_guesses:
  "currentWord (foldl (view_step languages) s (map GuessLetter guesses)) = currentWord s
   \<and> (\<not> isGameLost languages (foldl (view_step languages) s (map GuessLetter guesses)) \<longrightarrow>
        isGameWon (foldl (view_step languages) s (map GuessLetter guesses))
        \<or> set (guessedLetters (foldl (view_step languages) s (map GuessLetter guesses)))
            = set (guessedLetters s) \<union> set guesses)"
proof (induction guesses rule: rev_induct)
  case Nil
  show ?case by simp
next
  case (snoc l guesses)
  let ?t = "foldl (view_step languages) s (map GuessLetter guesses)"
  let ?u = "view_step languages ?t (GuessLetter l)"
  have u: "foldl (view_step languages) s (map GuessLetter (guesses @ [l])) = ?u"
    by simp
  have w: "currentWord ?u = currentWord s"
    using snoc.IH view_step_currentWord [of languages ?t l] by simp
  have g: "isGameWon ?u \<or> set (guessedLetters ?u) = set (guessedLetters s) \<union> set (guesses @ [l])"
    if nl: "\<not> isGameLost languages ?u"
  proof -
    from view_guess_step [OF nl]
    have a: "\<not> isGameLost languages ?t"
      and b: "isGameWon ?t \<longrightarrow> isGameWon ?u"
      and c: "\<not> isGameWon ?t \<longrightarrow> set (guessedLetters ?u) = insert l (set (guessedLetters ?t))"
      by blast+
    show ?thesis
    proof (cases "isGameWon ?t")
      case True
      then show ?thesis using b by simp
    next
      case False
      then have "set (guessedLetters ?t) = set (guessedLetters s) \<union> set guesses"
        using snoc.IH a by blast
      then show ?thesis using c False by auto
    qed
  qed
  show ?case unfolding u using w g by blast
qed

lemma filter_foldl_engine:
  "(foldl engine_step s (map GuessLetter gs))
      \<lparr>guessedLetters := filter P (guessedLetters (foldl engine_step s (map GuessLetter gs)))\<rparr>
   = foldl engine_step (s\<lparr>guessedLetters := filter P (guessedLetters s)\<rparr>)
       (map GuessLetter (filter P gs))"
proof (induction gs arbitrary: s)
  case Nil
  show ?case by simp
next
  case (Cons g gs)
  show ?case
    using Cons.IH [of "addGuessedLetter s g"] by (simp add: addGuessedLetter_update)
qed

lemma currentWord_foldl_engine:
  "currentWord (foldl engine_step s (map GuessLetter gs)) = currentWord s"
  by (induction gs arbitrary: s) (simp_all add: addGuessedLetter_def)

lemma wrongGuessCount_run_engine:
  "wrongGuessCount (run_engine w (map GuessLetter gs)) =
     length (guessedLetters (run_engine w
        (map GuessLetter (filter (\<lambda>l. \<not> str_includes w l) gs))))"
proof -
  let ?P = "\<lambda>l. \<not> str_includes w l"
  let ?s = "foldl engine_step (initial w) (map GuessLetter gs)"
  have "guessedLetters (?s\<lparr>guessedLetters := filter ?P (guessedLetters ?s)\<rparr>)
        = guessedLetters (foldl engine_step (initial w) (map GuessLetter (filter ?P gs)))"
    using filter_foldl_engine [where s = "initial w" and P = ?P and gs = gs] by (simp add: initial_def)
  then have "filter ?P (guessedLetters ?s)
        = guessedLetters (foldl engine_step (initial w) (map GuessLetter (filter ?P gs)))"
    by simp
  moreover have "currentWord ?s = w"
    by (simp add: currentWord_foldl_engine initial_def)
  ultimately show ?thesis
    by (simp add: wrongGuessCount_def run_engine_def)
qed

lemma wrongGuessCount_all_wrong:
  "\<forall>g \<in> set gs. \<not> str_includes w g \<Longrightarrow>
   wrongGuessCount \<lparr>currentWord = w, guessedLetters = gs\<rparr> = length gs"
  by (simp add: wrongGuessCount_def)

lemma not_won_all_wrong:
  assumes "w \<noteq> []" "\<forall>g \<in> set gs. \<not> str_includes w g"
  shows "\<not> isGameWon \<lparr>currentWord = w, guessedLetters = gs\<rparr>"
proof
  assume won: "isGameWon \<lparr>currentWord = w, guessedLetters = gs\<rparr>"
  from assms(1) obtain c where c: "c \<in> set w" by (cases w) auto
  then have "[c] \<in> set gs" using won by (simp add: isGameWon_iff)
  then have "\<not> str_includes w [c]" using assms(2) by blast
  then show False using c by (simp add: str_includes_single)
qed

lemma run_view_all_wrong:
  "w \<noteq> [] \<Longrightarrow> distinct gs \<Longrightarrow> \<forall>g \<in> set gs. \<not> str_includes w g \<Longrightarrow>
   int (length gs) \<le> guessesLeft languages \<Longrightarrow>
   run_view languages w (map GuessLetter gs) = \<lparr>currentWord = w, guessedLetters = gs\<rparr>"
proof (induction gs rule: rev_induct)
  case Nil
  show ?case by (simp add: run_view_def initial_def)
next
  case (snoc g gs)
  let ?t = "\<lparr>currentWord = w, guessedLetters = gs\<rparr>"
  have wrong: "\<forall>g \<in> set gs. \<not> str_includes w g" using snoc.prems(3) by simp
  have t: "run_view languages w (map GuessLetter gs) = ?t"
    using snoc by simp
  have "\<not> isGameWon ?t"
    using snoc.prems(1) wrong by (rule not_won_all_wrong)
  moreover have "\<not> isGameLost languages ?t"
    using snoc.prems(4) by (simp add: isGameLost_def wrongGuessCount_all_wrong [OF wrong])
  ultimately have "\<not> isGameOver languages ?t" by (simp add: isGameOver_def)
  then have "view_step languages ?t (GuessLetter g) = addGuessedLetter ?t g"
    by (simp add: click_keyButton)
  moreover have "addGuessedLetter ?t g = \<lparr>currentWord = w, guessedLetters = gs @ [g]\<rparr>"
    using snoc.prems(2) by (simp add: addGuessedLetter_def arr_includes_def)
  moreover have "run_view languages w (map GuessLetter (gs @ [g]))
      = view_step languages (run_view languages w (map GuessLetter gs)) (GuessLetter g)"
    by (simp add: run_view_def)
  ultimately show ?case using t by simp
qed

lemma seven_wrong_facts:
  "distinct seven_wrong" "length seven_wrong = 7" "\<forall>g \<in> set seven_wrong. \<not> str_includes ''cat'' g"
  by (simp_all add: seven_wrong_def str_includes_single)

lemma seven_wrong_prefix:
  assumes "length languages = 8" "k \<le> 7"
  shows "run_view languages ''cat'' (map GuessLetter (take k seven_wrong))
           = \<lparr>currentWord = ''cat'', guessedLetters = take k seven_wrong\<rparr>"
    and "wrongGuessCount \<lparr>currentWord = ''cat'', guessedLetters = take k seven_wrong\<rparr> = k"
    and "\<not> isGameWon \<lparr>currentWord = ''cat'', guessedLetters = take k seven_wrong\<rparr>"
proof -
  have wrong: "\<forall>g \<in> set (take k seven_wrong). \<not> str_includes ''cat'' g"
    using seven_wrong_facts(3) by (meson in_set_takeD)
  have len: "length (take k seven_wrong) = k"
    using assms(2) by (simp add: seven_wrong_facts(2))
  show "run_view languages ''cat'' (map GuessLetter (take k seven_wrong))
           = \<lparr>currentWord = ''cat'', guessedLetters = take k seven_wrong\<rparr>"
    using wrong assms seven_wrong_facts(1)
    by (intro run_view_all_wrong) (simp_all add: len guessesLeft_def)
  show "wrongGuessCount \<lparr>currentWord = ''cat'', guessedLetters = take k seven_wrong\<rparr> = k"
    using wrongGuessCount_all_wrong [OF wrong] len by simp
  show "\<not> isGameWon \<lparr>currentWord = ''cat'', guessedLetters = take k seven_wrong\<rparr>"
    using wrong by (intro not_won_all_wrong) simp_all
qed

subsection \<open>The language chips and the farewell test\<close>

lemma languageElements_nth:
  "i < length languages \<Longrightarrow>
   languageElements languages s ! i =
     \<lparr>chip_className = ''chip '' @ (if isLanguageLost s i then ''lost'' else ''''),
      chip_backgroundColor = backgroundColor (languages ! i),
      chip_color = color (languages ! i),
      chip_key = name (languages ! i),
      chip_text = name (languages ! i)\<rparr>"
  by (simp add: languageElements_def)

lemma length_languageElements: "length (languageElements languages s) = length languages"
  by (simp add: languageElements_def)

lemma classNames_languageElements:
  "map chip_className (languageElements languages s) =
     map (\<lambda>i. if i < wrongGuessCount s then ''chip lost'' else ''chip '') [0 ..< length languages]"
  by (rule nth_equalityI) (simp_all add: length_languageElements languageElements_nth isLanguageLost_def)

lemma languageElements_cong:
  "wrongGuessCount s' = wrongGuessCount s \<Longrightarrow>
   languageElements languages s' = languageElements languages s"
  by (simp add: languageElements_def isLanguageLost_def)

lemma wrong_last_counted:
  assumes "lastGuessedLetter s = Some l" "\<not> str_includes (currentWord s) l"
  shows "1 \<le> wrongGuessCount s"
proof -
  have "l \<in> set (guessedLetters s)"
    using assms(1) by (auto simp: lastGuessedLetter_def split: if_splits)
  then have "l \<in> set (filter (\<lambda>letter. \<not> str_includes (currentWord s) letter) (guessedLetters s))"
    using assms(2) by simp
  then have "0 < length (filter (\<lambda>letter. \<not> str_includes (currentWord s) letter) (guessedLetters s))"
    by (rule length_pos_if_in_set)
  then show ?thesis unfolding wrongGuessCount_def by linarith
qed

lemma isLastGuessCorrect_iff:
  "isLastGuessCorrect s \<longleftrightarrow> (\<exists>l. lastGuessedLetter s = Some l \<and> \<not> str_includes (currentWord s) l)"
  using str_includes_empty by (auto simp: isLastGuessCorrect_def split: option.splits)

section \<open>Claims\<close>

text \<open>
  C1 (as stated, refuted). The claim ranges over every sequence of \<open>newGame\<close> and guess
  commands. \<open>addGuessedLetter\<close> has no test of \<open>isGameOver\<close>: called seven times with
  letters that are not in \<open>cat\<close> and then with \<open>c\<close>, \<open>a\<close>, \<open>t\<close>, it reaches a
  state where \<open>isGameWon\<close> and \<open>isGameLost\<close> both hold (ladder of eight).
\<close>

theorem C1_counterexample:
  "isGameWon (run_engine ''cat'' (map GuessLetter
      [''x'', ''y'', ''z'', ''q'', ''w'', ''e'', ''r'', ''c'', ''a'', ''t'']))
   \<and> isGameLost ladder8 (run_engine ''cat'' (map GuessLetter
      [''x'', ''y'', ''z'', ''q'', ''w'', ''e'', ''r'', ''c'', ''a'', ''t'']))"
  by (simp add: run_engine_def initial_def addGuessedLetter_def arr_includes_def
      isGameWon_iff isGameLost_def wrongGuessCount_def str_includes_single guessesLeft_def ladder8_def)

text \<open>
  C1 (amended). For every round that starts with a non-empty word, and every sequence of
  \<open>newGame\<close> commands (each installing a non-empty word) and guesses issued through the
  keyboard of the view, whose buttons are disabled while \<open>isGameOver\<close> holds,
  \<open>isGameWon\<close> and \<open>isGameLost\<close> are never both true. The guess may be any string and
  the ladder may have any length.
\<close>

theorem C1_won_lost_exclusive_through_view:
  "w \<noteq> [] \<Longrightarrow> list_all picks_nonempty cmds \<Longrightarrow>
   \<not> (isGameWon (run_view languages w cmds) \<and> isGameLost languages (run_view languages w cmds))"
  unfolding run_view_def
  by (rule foldl_view_exclusive) (use newGame_exclusive [of w "initial w"] in \<open>simp_all add: initial_def newGame_def\<close>)

theorem C1_won_lost_exclusive_through_view_witness:
  "''cat'' \<noteq> []
   \<and> list_all picks_nonempty [GuessLetter ''x'', GuessLetter ''c'', GuessLetter ''a'',
          GuessLetter ''t'', GuessLetter ''z'', NewGame ''dog'', GuessLetter ''d'']
   \<and> \<not> (isGameWon (run_view ladder8 ''cat'' [GuessLetter ''x'', GuessLetter ''c'', GuessLetter ''a'',
          GuessLetter ''t'', GuessLetter ''z'', NewGame ''dog'', GuessLetter ''d''])
        \<and> isGameLost ladder8 (run_view ladder8 ''cat'' [GuessLetter ''x'', GuessLetter ''c'',
          GuessLetter ''a'', GuessLetter ''t'', GuessLetter ''z'', NewGame ''dog'', GuessLetter ''d'']))"
  using C1_won_lost_exclusive_through_view [of "''cat''" "[GuessLetter ''x'', GuessLetter ''c'',
          GuessLetter ''a'', GuessLetter ''t'', GuessLetter ''z'', NewGame ''dog'', GuessLetter ''d'']" ladder8]
  by simp

text \<open>
  C2 (as stated, refuted). After \<open>c\<close>, \<open>a\<close>, \<open>t\<close> on the word \<open>cat\<close> the game is
  over (won); the guess \<open>x\<close> handed to \<open>addGuessedLetter\<close> is still appended, without
  an error: the state changes.
\<close>

theorem C2_counterexample:
  "isGameOver ladder8 (run_engine ''cat'' [GuessLetter ''c'', GuessLetter ''a'', GuessLetter ''t''])
   \<and> guessLetter (run_engine ''cat'' [GuessLetter ''c'', GuessLetter ''a'', GuessLetter ''t'']) ''x''
       = Inr \<lparr>currentWord = ''cat'', guessedLetters = [''c'', ''a'', ''t'', ''x'']\<rparr>
   \<and> run_engine ''cat'' [GuessLetter ''c'', GuessLetter ''a'', GuessLetter ''t'']
       \<noteq> \<lparr>currentWord = ''cat'', guessedLetters = [''c'', ''a'', ''t'', ''x'']\<rparr>"
  by (simp add: run_engine_def initial_def addGuessedLetter_def arr_includes_def guessLetter_def
      isGameOver_def isGameWon_iff)

text \<open>
  C2 (amended). Once \<open>isGameOver\<close> holds, a guess issued through the view leaves the
  whole round state unchanged, because every keyboard button is rendered disabled.
  \<open>addGuessedLetter\<close> itself has no such guard: on an over state it leaves the state
  unchanged exactly for a letter that was already guessed, and appends any other
  letter, returning normally.
\<close>

theorem C2_over_guarded_by_view_only:
  "isGameOver languages s \<Longrightarrow>
     click (keyButton languages s letter) s = s
     \<and> (\<forall>b \<in> set (keyboardElements languages s). btn_disabled b \<and> click b s = s)
     \<and> (addGuessedLetter s letter = s \<longleftrightarrow> letter \<in> set (guessedLetters s))
     \<and> (letter \<notin> set (guessedLetters s) \<longrightarrow>
          guessLetter s letter = Inr (s\<lparr>guessedLetters := guessedLetters s @ [letter]\<rparr>))"
proof -
  assume over: "isGameOver languages s"
  have neq: "s\<lparr>guessedLetters := guessedLetters s @ [letter]\<rparr> \<noteq> s"
  proof
    assume "s\<lparr>guessedLetters := guessedLetters s @ [letter]\<rparr> = s"
    then have "guessedLetters (s\<lparr>guessedLetters := guessedLetters s @ [letter]\<rparr>) = guessedLetters s"
      by simp
    then show False by simp
  qed
  show ?thesis
    using over neq
    by (auto simp: click_keyButton keyboardElements_def keyButton_def click_def Let_def
        addGuessedLetter_def arr_includes_def guessLetter_def)
qed

theorem C2_over_guarded_by_view_only_witness:
  "isGameOver ladder8 \<lparr>currentWord = ''cat'', guessedLetters = [''c'', ''a'', ''t'']\<rparr>
   \<and> click (keyButton ladder8 \<lparr>currentWord = ''cat'', guessedLetters = [''c'', ''a'', ''t'']\<rparr> ''x'')
        \<lparr>currentWord = ''cat'', guessedLetters = [''c'', ''a'', ''t'']\<rparr>
       = \<lparr>currentWord = ''cat'', guessedLetters = [''c'', ''a'', ''t'']\<rparr>
   \<and> guessLetter \<lparr>currentWord = ''cat'', guessedLetters = [''c'', ''a'', ''t'']\<rparr> ''x''
       = Inr \<lparr>currentWord = ''cat'', guessedLetters = [''c'', ''a'', ''t'', ''x'']\<rparr>"
proof -
  have over: "isGameOver ladder8 \<lparr>currentWord = ''cat'', guessedLetters = [''c'', ''a'', ''t'']\<rparr>"
    by (simp add: isGameOver_def isGameWon_iff)
  show ?thesis
    using over C2_over_guarded_by_view_only [OF over, of "''x''"] by simp
qed

text \<open>
  C3 (as stated, refuted). The two-character string \<open>ab\<close> is not one of the 26 letters,
  yet the guess returns normally and stores it: no InvalidInputError.
\<close>

theorem C3_counterexample:
  "''ab'' \<notin> set (split_chars alphabet)
   \<and> guessLetter (initial ''cat'') ''ab'' = Inr \<lparr>currentWord = ''cat'', guessedLetters = [''ab'']\<rparr>
   \<and> guessLetter (initial ''cat'') ''ab'' \<noteq> Inl InvalidInputError"
  by (simp add: split_chars_def alphabet_def guessLetter_def initial_def addGuessedLetter_def
      arr_includes_def)

text \<open>
  C3 (amended). The guess never fails, whatever the argument (a single lowercase letter
  or not): it returns a state with the same word in which the argument is among the
  guessed letters, appended at the end when it was not there before.
\<close>

theorem C3_guessLetter_never_fails:
  "\<exists>s'. guessLetter s letter = Inr s'
        \<and> currentWord s' = currentWord s
        \<and> set (guessedLetters s') = insert letter (set (guessedLetters s))
        \<and> guessedLetters s' =
            (if letter \<in> set (guessedLetters s) then guessedLetters s
             else guessedLetters s @ [letter])"
  by (auto simp: guessLetter_def addGuessedLetter_def arr_includes_def)

text \<open>
  C4. For every secret word \<open>w\<close> and every sequence of guesses from a fresh round, made
  by direct calls of \<open>addGuessedLetter\<close> or through the keyboard of the view: when
  every letter of \<open>w\<close> is among the guesses and the count of wrong guesses is below
  \<open>guessesLeft\<close> at that point, the round is won and not lost, and the status shown is
  the win message, however many wrong guesses came before.
\<close>

theorem C4_all_letters_guessed_is_won:
  assumes "set (split_chars w) \<subseteq> set guesses"
  shows "(int (wrongGuessCount (run_engine w (map GuessLetter guesses))) < guessesLeft languages \<longrightarrow>
            isGameWon (run_engine w (map GuessLetter guesses))
          \<and> \<not> isGameLost languages (run_engine w (map GuessLetter guesses))
          \<and> gameStatus getFarewellText languages (run_engine w (map GuessLetter guesses)) = Inr YouWin)
       \<and> (int (wrongGuessCount (run_view languages w (map GuessLetter guesses))) < guessesLeft languages \<longrightarrow>
            isGameWon (run_view languages w (map GuessLetter guesses))
          \<and> \<not> isGameLost languages (run_view languages w (map GuessLetter guesses))
          \<and> gameStatus getFarewellText languages (run_view languages w (map GuessLetter guesses)) = Inr YouWin)"
proof -
  let ?e = "run_engine w (map GuessLetter guesses)"
  let ?v = "run_view languages w (map GuessLetter guesses)"
  have e: "currentWord ?e = w" "set (guessedLetters ?e) = set guesses"
    using foldl_engine_guesses [of "initial w" guesses] by (simp_all add: run_engine_def initial_def)
  have we: "isGameWon ?e"
    using assms e by (intro won_if_letters_guessed) simp
  have v: "currentWord ?v = w"
    using foldl_view_guesses [of languages "initial w" guesses] by (simp add: run_view_def initial_def)
  have wv: "isGameWon ?v" if "\<not> isGameLost languages ?v"
  proof -
    have "isGameWon ?v \<or> set (guessedLetters ?v) = set guesses"
      using that foldl_view_guesses [of languages "initial w" guesses]
      by (simp add: run_view_def initial_def)
    then show ?thesis
      using assms v won_if_letters_guessed [of ?v] by auto
  qed
  show ?thesis
    using we wv by (auto simp: isGameLost_def won_status)
qed

theorem C4_all_letters_guessed_is_won_witness:
  "set (split_chars ''cat'') \<subseteq> set [''x'', ''c'', ''y'', ''a'', ''t'']
   \<and> int (wrongGuessCount (run_engine ''cat'' (map GuessLetter [''x'', ''c'', ''y'', ''a'', ''t''])))
       < guessesLeft ladder8
   \<and> isGameWon (run_engine ''cat'' (map GuessLetter [''x'', ''c'', ''y'', ''a'', ''t'']))
   \<and> \<not> isGameLost ladder8 (run_engine ''cat'' (map GuessLetter [''x'', ''c'', ''y'', ''a'', ''t'']))
   \<and> int (wrongGuessCount (run_view ladder8 ''cat'' (map GuessLetter [''x'', ''c'', ''y'', ''a'', ''t''])))
       < guessesLeft ladder8
   \<and> isGameWon (run_view ladder8 ''cat'' (map GuessLetter [''x'', ''c'', ''y'', ''a'', ''t'']))"
proof -
  have h: "set (split_chars ''cat'') \<subseteq> set [''x'', ''c'', ''y'', ''a'', ''t'']"
    by (simp add: split_chars_def)
  have e: "int (wrongGuessCount (run_engine ''cat'' (map GuessLetter [''x'', ''c'', ''y'', ''a'', ''t''])))
       < guessesLeft ladder8"
    by code_simp
  have v: "int (wrongGuessCount (run_view ladder8 ''cat'' (map GuessLetter [''x'', ''c'', ''y'', ''a'', ''t''])))
       < guessesLeft ladder8"
    by code_simp
  show ?thesis
    using h e v C4_all_letters_guessed_is_won [OF h, of ladder8 "\<lambda>n. n"] by blast
qed

text \<open>
  C5. For a ladder of \<open>N\<close> entries, \<open>guessesLeft\<close> is \<open>N - 1\<close> and \<open>isGameLost\<close> holds
  exactly when the wrong count is at least \<open>N - 1\<close>. For the word \<open>cat\<close> and any ladder
  of eight entries, after the first \<open>k\<close> of the guesses \<open>x, y, z, q, w, e, r\<close> the wrong
  count is \<open>k\<close>, the round is not won, and it is lost exactly when \<open>k = 7\<close>; after the
  seventh guess the chips of positions 0 to 6 carry the class \<open>lost\<close> and the chip of
  position 7 does not.
\<close>

theorem C5_lost_after_seventh_wrong_guess:
  "guessesLeft languages = int (length languages) - 1
   \<and> (isGameLost languages s \<longleftrightarrow> int (wrongGuessCount s) \<ge> int (length languages) - 1)
   \<and> (length languages = 8 \<longrightarrow>
        guessesLeft languages = 7
        \<and> (\<forall>k \<le> 7.
              run_view languages ''cat'' (map GuessLetter (take k seven_wrong))
                = \<lparr>currentWord = ''cat'', guessedLetters = take k seven_wrong\<rparr>
              \<and> wrongGuessCount (run_view languages ''cat'' (map GuessLetter (take k seven_wrong))) = k
              \<and> \<not> isGameWon (run_view languages ''cat'' (map GuessLetter (take k seven_wrong)))
              \<and> (isGameLost languages (run_view languages ''cat'' (map GuessLetter (take k seven_wrong)))
                   \<longleftrightarrow> k = 7))
        \<and> gameStatus getFarewellText languages (run_view languages ''cat'' (map GuessLetter seven_wrong))
            = Inr GameOverMessage
        \<and> map chip_className
             (languageElements languages (run_view languages ''cat'' (map GuessLetter seven_wrong)))
            = [''chip lost'', ''chip lost'', ''chip lost'', ''chip lost'', ''chip lost'',
               ''chip lost'', ''chip lost'', ''chip ''])"
proof -
  have general: "guessesLeft languages = int (length languages) - 1"
    "isGameLost languages s \<longleftrightarrow> int (wrongGuessCount s) \<ge> int (length languages) - 1"
    by (simp_all add: guessesLeft_def isGameLost_def)
  have concrete: "guessesLeft languages = 7
        \<and> (\<forall>k \<le> 7.
              run_view languages ''cat'' (map GuessLetter (take k seven_wrong))
                = \<lparr>currentWord = ''cat'', guessedLetters = take k seven_wrong\<rparr>
              \<and> wrongGuessCount (run_view languages ''cat'' (map GuessLetter (take k seven_wrong))) = k
              \<and> \<not> isGameWon (run_view languages ''cat'' (map GuessLetter (take k seven_wrong)))
              \<and> (isGameLost languages (run_view languages ''cat'' (map GuessLetter (take k seven_wrong)))
                   \<longleftrightarrow> k = 7))
        \<and> gameStatus getFarewellText languages (run_view languages ''cat'' (map GuessLetter seven_wrong))
            = Inr GameOverMessage
        \<and> map chip_className
             (languageElements languages (run_view languages ''cat'' (map GuessLetter seven_wrong)))
            = [''chip lost'', ''chip lost'', ''chip lost'', ''chip lost'', ''chip lost'',
               ''chip lost'', ''chip lost'', ''chip '']"
    if n: "length languages = 8"
  proof -
    have left: "guessesLeft languages = 7" using n by (simp add: guessesLeft_def)
    have pre: "run_view languages ''cat'' (map GuessLetter (take k seven_wrong))
                = \<lparr>currentWord = ''cat'', guessedLetters = take k seven_wrong\<rparr>
              \<and> wrongGuessCount (run_view languages ''cat'' (map GuessLetter (take k seven_wrong))) = k
              \<and> \<not> isGameWon (run_view languages ''cat'' (map GuessLetter (take k seven_wrong)))
              \<and> (isGameLost languages (run_view languages ''cat'' (map GuessLetter (take k seven_wrong)))
                   \<longleftrightarrow> k = 7)" if k: "k \<le> 7" for k
      using seven_wrong_prefix [OF n k] k by (auto simp: isGameLost_def left)
    have full: "take 7 seven_wrong = seven_wrong" by (simp add: seven_wrong_facts(2))
    let ?s = "run_view languages ''cat'' (map GuessLetter seven_wrong)"
    have s: "wrongGuessCount ?s = 7" "\<not> isGameWon ?s" "isGameLost languages ?s"
      using pre [OF order_refl, unfolded full] by blast+
    have status: "gameStatus getFarewellText languages ?s = Inr GameOverMessage"
      using s by (simp add: gameStatus_def isGameOver_def)
    have upt8: "[0 ..< 8] = [0, 1, 2, 3, 4, 5, 6, 7::nat]"
      by (simp add: upt_rec)
    have chips: "map chip_className (languageElements languages ?s)
            = [''chip lost'', ''chip lost'', ''chip lost'', ''chip lost'', ''chip lost'',
               ''chip lost'', ''chip lost'', ''chip '']"
      by (simp add: classNames_languageElements n s(1) upt8)
    show ?thesis using left pre status chips by blast
  qed
  show ?thesis using general concrete by blast
qed

theorem C5_lost_after_seventh_wrong_guess_witness:
  "length ladder8 = 8
   \<and> guessesLeft ladder8 = 7
   \<and> \<not> isGameLost ladder8 (run_view ladder8 ''cat'' (map GuessLetter (take 6 seven_wrong)))
   \<and> isGameLost ladder8 (run_view ladder8 ''cat'' (map GuessLetter (take 7 seven_wrong)))
   \<and> map chip_className
        (languageElements ladder8 (run_view ladder8 ''cat'' (map GuessLetter seven_wrong)))
       = [''chip lost'', ''chip lost'', ''chip lost'', ''chip lost'', ''chip lost'',
          ''chip lost'', ''chip lost'', ''chip '']"
proof -
  have n: "length ladder8 = 8" by (simp add: ladder8_def)
  note t = C5_lost_after_seventh_wrong_guess [of ladder8 "initial ''cat''" "\<lambda>n. n"]
  from t n have left: "guessesLeft ladder8 = 7"
    by blast
  from t n have a: "\<forall>k \<le> 7. isGameLost ladder8
      (run_view ladder8 ''cat'' (map GuessLetter (take k seven_wrong))) \<longleftrightarrow> k = 7"
    by blast
  have six: "\<not> isGameLost ladder8 (run_view ladder8 ''cat'' (map GuessLetter (take 6 seven_wrong)))"
    using a [rule_format, of 6] by simp
  have seven: "isGameLost ladder8 (run_view ladder8 ''cat'' (map GuessLetter (take 7 seven_wrong)))"
    using a [rule_format, of 7] by simp
  from t n have chips: "map chip_className
        (languageElements ladder8 (run_view ladder8 ''cat'' (map GuessLetter seven_wrong)))
       = [''chip lost'', ''chip lost'', ''chip lost'', ''chip lost'', ''chip lost'',
          ''chip lost'', ''chip lost'', ''chip '']"
    by blast
  show ?thesis
    using n left six seven chips by blast
qed

text \<open>
  C6. In every round state, the chip at position \<open>i\<close> of the ladder is marked lost
  exactly when \<open>i < wrongGuessCount\<close>, one chip per language in ladder order. The chips
  depend on the guesses only through the wrong ones: two states with the same word whose
  guess lists have the same wrong letters (so, in particular, two that differ only in
  where the correct letters stand) have the same chips, and so have two sequences of
  direct guesses from a fresh round with the same wrong letters.
\<close>

theorem C6_tier_loss_map:
  "length (languageElements languages s) = length languages
   \<and> (i < length languages \<longrightarrow>
        (chip_className (languageElements languages s ! i) = ''chip lost'' \<longleftrightarrow> i < wrongGuessCount s)
        \<and> (chip_className (languageElements languages s ! i) = ''chip '' \<longleftrightarrow> \<not> i < wrongGuessCount s)
        \<and> chip_key (languageElements languages s ! i) = name (languages ! i))
   \<and> (currentWord s' = currentWord s
        \<and> filter (\<lambda>l. \<not> str_includes (currentWord s) l) (guessedLetters s')
            = filter (\<lambda>l. \<not> str_includes (currentWord s) l) (guessedLetters s) \<longrightarrow>
        languageElements languages s' = languageElements languages s)
   \<and> (filter (\<lambda>l. \<not> str_includes w l) gs' = filter (\<lambda>l. \<not> str_includes w l) gs \<longrightarrow>
        languageElements languages (run_engine w (map GuessLetter gs'))
          = languageElements languages (run_engine w (map GuessLetter gs)))"
proof -
  have a: "currentWord s' = currentWord s
        \<and> filter (\<lambda>l. \<not> str_includes (currentWord s) l) (guessedLetters s')
            = filter (\<lambda>l. \<not> str_includes (currentWord s) l) (guessedLetters s) \<longrightarrow>
        languageElements languages s' = languageElements languages s"
    by (auto intro!: languageElements_cong simp: wrongGuessCount_def)
  have b: "filter (\<lambda>l. \<not> str_includes w l) gs' = filter (\<lambda>l. \<not> str_includes w l) gs \<longrightarrow>
        languageElements languages (run_engine w (map GuessLetter gs'))
          = languageElements languages (run_engine w (map GuessLetter gs))"
    by (auto intro!: languageElements_cong simp: wrongGuessCount_run_engine)
  show ?thesis
    using a b by (simp add: length_languageElements languageElements_nth isLanguageLost_def)
qed

theorem C6_tier_loss_map_witness:
  "(1::nat) < length ladder8
   \<and> chip_className (languageElements ladder8
        \<lparr>currentWord = ''cat'', guessedLetters = [''x'', ''c'', ''a'', ''y'']\<rparr> ! 1) = ''chip lost''
   \<and> (2::nat) < length ladder8
   \<and> chip_className (languageElements ladder8
        \<lparr>currentWord = ''cat'', guessedLetters = [''x'', ''c'', ''a'', ''y'']\<rparr> ! 2) = ''chip ''
   \<and> languageElements ladder8 \<lparr>currentWord = ''cat'', guessedLetters = [''a'', ''x'', ''y'', ''c'']\<rparr>
       = languageElements ladder8 \<lparr>currentWord = ''cat'', guessedLetters = [''x'', ''c'', ''a'', ''y'']\<rparr>
   \<and> languageElements ladder8 (run_engine ''cat'' (map GuessLetter [''a'', ''x'', ''y'', ''c'']))
       = languageElements ladder8 (run_engine ''cat'' (map GuessLetter [''x'', ''c'', ''a'', ''y'']))"
proof -
  let ?s = "\<lparr>currentWord = ''cat'', guessedLetters = [''x'', ''c'', ''a'', ''y'']\<rparr>"
  let ?s' = "\<lparr>currentWord = ''cat'', guessedLetters = [''a'', ''x'', ''y'', ''c'']\<rparr>"
  have n: "length ladder8 = 8" by (simp add: ladder8_def)
  have c: "wrongGuessCount ?s = 2" by (simp add: wrongGuessCount_def str_includes_single)
  have f: "filter (\<lambda>l. \<not> str_includes (currentWord ?s) l) (guessedLetters ?s')
            = filter (\<lambda>l. \<not> str_includes (currentWord ?s) l) (guessedLetters ?s)"
    by (simp add: str_includes_single)
  have g: "filter (\<lambda>l. \<not> str_includes ''cat'' l) [''a'', ''x'', ''y'', ''c'']
            = filter (\<lambda>l. \<not> str_includes ''cat'' l) [''x'', ''c'', ''a'', ''y'']"
    by (simp add: str_includes_single)
  show ?thesis
    using n c f g
      C6_tier_loss_map [of ladder8 ?s 1 ?s' "''cat''" "[''a'', ''x'', ''y'', ''c'']" "[''x'', ''c'', ''a'', ''y'']"]
      C6_tier_loss_map [of ladder8 ?s 2 ?s' "''cat''" "[''a'', ''x'', ''y'', ''c'']" "[''x'', ''c'', ''a'', ''y'']"]
    by simp
qed

text \<open>
  C7. The farewell condition holds exactly when the game is not over and there is a last
  guess that does not occur in the word. Whenever it holds, the wrong count is at least
  one, the index \<open>wrongGuessCount - 1\<close> is inside the ladder, and \<open>gameStatus\<close> shows
  the farewell text of the language at that index; \<open>gameStatus\<close> shows a farewell in no
  other case and never reads outside the ladder.
\<close>

theorem C7_farewell_in_bounds:
  "(farewellEligible languages s \<longleftrightarrow>
      \<not> isGameOver languages s
      \<and> (\<exists>l. lastGuessedLetter s = Some l \<and> \<not> str_includes (currentWord s) l))
   \<and> (farewellEligible languages s \<longrightarrow>
        1 \<le> wrongGuessCount s
        \<and> wrongGuessCount s - 1 < length languages
        \<and> gameStatus getFarewellText languages s
            = Inr (FarewellMessage (getFarewellText (name (languages ! (wrongGuessCount s - 1))))))
   \<and> (\<not> farewellEligible languages s \<longrightarrow>
        (\<forall>m. gameStatus getFarewellText languages s \<noteq> Inr (FarewellMessage m)))
   \<and> gameStatus getFarewellText languages s \<noteq> Inl TypeError"
proof -
  have iff: "farewellEligible languages s \<longleftrightarrow>
      \<not> isGameOver languages s
      \<and> (\<exists>l. lastGuessedLetter s = Some l \<and> \<not> str_includes (currentWord s) l)"
    by (simp add: farewellEligible_def isLastGuessCorrect_iff)
  have bounds: "1 \<le> wrongGuessCount s \<and> wrongGuessCount s - 1 < length languages"
    if "farewellEligible languages s"
  proof -
    from that iff obtain l where l: "lastGuessedLetter s = Some l" "\<not> str_includes (currentWord s) l"
      and no: "\<not> isGameOver languages s"
      by blast
    have "1 \<le> wrongGuessCount s" using l by (rule wrong_last_counted)
    moreover have "int (wrongGuessCount s) < int (length languages) - 1"
      using no by (simp add: isGameOver_def isGameLost_def guessesLeft_def)
    ultimately show ?thesis by linarith
  qed
  have status: "gameStatus getFarewellText languages s
            = Inr (FarewellMessage (getFarewellText (name (languages ! (wrongGuessCount s - 1)))))"
    if e: "farewellEligible languages s"
  proof -
    have "nat (int (wrongGuessCount s) - 1) = wrongGuessCount s - 1" by simp
    moreover have "0 \<le> int (wrongGuessCount s) - 1 \<and> int (wrongGuessCount s) - 1 < int (length languages)"
      using bounds [OF e] by linarith
    ultimately show ?thesis
      using e by (simp add: gameStatus_def farewellEligible_def Let_def)
  qed
  have other: "\<forall>m. gameStatus getFarewellText languages s \<noteq> Inr (FarewellMessage m)"
    if "\<not> farewellEligible languages s"
    using that by (auto simp: gameStatus_def farewellEligible_def)
  have noerr: "gameStatus getFarewellText languages s \<noteq> Inl TypeError"
  proof (cases "farewellEligible languages s")
    case True
    then show ?thesis using status by simp
  next
    case False
    then show ?thesis by (auto simp: gameStatus_def farewellEligible_def)
  qed
  show ?thesis using iff bounds status other noerr by blast
qed

theorem C7_farewell_in_bounds_witness:
  "farewellEligible ladder8 \<lparr>currentWord = ''cat'', guessedLetters = [''x'']\<rparr>
   \<and> wrongGuessCount \<lparr>currentWord = ''cat'', guessedLetters = [''x'']\<rparr> = 1
   \<and> gameStatus (\<lambda>n. ''Farewell, '' @ n) ladder8 \<lparr>currentWord = ''cat'', guessedLetters = [''x'']\<rparr>
       = Inr (FarewellMessage ''Farewell, L0'')
   \<and> \<not> farewellEligible ladder8 \<lparr>currentWord = ''cat'', guessedLetters = [''x'', ''c'']\<rparr>
   \<and> gameStatus (\<lambda>n. ''Farewell, '' @ n) ladder8 \<lparr>currentWord = ''cat'', guessedLetters = [''x'', ''c'']\<rparr>
       \<noteq> Inr (FarewellMessage ''Farewell, L0'')"
proof -
  have e: "farewellEligible ladder8 \<lparr>currentWord = ''cat'', guessedLetters = [''x'']\<rparr>"
    by code_simp
  have c: "wrongGuessCount \<lparr>currentWord = ''cat'', guessedLetters = [''x'']\<rparr> = 1"
    by code_simp
  have l: "name (ladder8 ! 0) = ''L0''"
    by (simp add: ladder8_def)
  have n: "\<not> farewellEligible ladder8 \<lparr>currentWord = ''cat'', guessedLetters = [''x'', ''c'']\<rparr>"
    by code_simp
  show ?thesis
    using e c l n
      C7_farewell_in_bounds [of ladder8 "\<lparr>currentWord = ''cat'', guessedLetters = [''x'']\<rparr>" "\<lambda>n. ''Farewell, '' @ n"]
      C7_farewell_in_bounds [of ladder8 "\<lparr>currentWord = ''cat'', guessedLetters = [''x'', ''c'']\<rparr>" "\<lambda>n. ''Farewell, '' @ n"]
    by simp
qed

text \<open>
  C8. Guessing a letter that is already among the guessed letters is a no-op: the round
  state is returned unchanged, without an error, hence the wrong count, the win and loss
  tests and the revealed letters are unchanged.
\<close>

theorem C8_reguess_noop:
  "letter \<in> set (guessedLetters s) \<Longrightarrow>
     addGuessedLetter s letter = s
     \<and> guessLetter s letter = Inr s
     \<and> wrongGuessCount (addGuessedLetter s letter) = wrongGuessCount s
     \<and> isGameWon (addGuessedLetter s letter) = isGameWon s
     \<and> isGameLost languages (addGuessedLetter s letter) = isGameLost languages s
     \<and> letterElements languages (addGuessedLetter s letter) = letterElements languages s"
  by (simp add: addGuessedLetter_def guessLetter_def arr_includes_def)

theorem C8_reguess_noop_witness:
  "''x'' \<in> set (guessedLetters \<lparr>currentWord = ''cat'', guessedLetters = [''c'', ''x'']\<rparr>)
   \<and> addGuessedLetter \<lparr>currentWord = ''cat'', guessedLetters = [''c'', ''x'']\<rparr> ''x''
       = \<lparr>currentWord = ''cat'', guessedLetters = [''c'', ''x'']\<rparr>
   \<and> guessLetter \<lparr>currentWord = ''cat'', guessedLetters = [''c'', ''x'']\<rparr> ''x''
       = Inr \<lparr>currentWord = ''cat'', guessedLetters = [''c'', ''x'']\<rparr>"
  using C8_reguess_noop [of "''x''" "\<lparr>currentWord = ''cat'', guessedLetters = [''c'', ''x'']\<rparr>" ladder8]
  by simp

text \<open>
  C9. \<open>newGame\<close> replaces both state cells at once, whatever the state before: the word
  is the one just picked and the guess list is empty, so the wrong count is 0. For a
  picked word that is non-empty and a ladder of at least two entries the round is
  neither won nor lost (it is being played) and no status message is shown.
\<close>

theorem C9_newGame_resets:
  "w \<noteq> [] \<Longrightarrow> 2 \<le> length languages \<Longrightarrow>
     newGame w s = \<lparr>currentWord = w, guessedLetters = []\<rparr>
     \<and> guessedLetters (newGame w s) = []
     \<and> wrongGuessCount (newGame w s) = 0
     \<and> \<not> isGameWon (newGame w s)
     \<and> \<not> isGameLost languages (newGame w s)
     \<and> \<not> isGameOver languages (newGame w s)
     \<and> gameStatus getFarewellText languages (newGame w s) = Inr NoMessage"
  by (cases w) (auto simp: newGame_def wrongGuessCount_def isGameWon_iff isGameLost_def
      isGameOver_def guessesLeft_def gameStatus_def isLastGuessCorrect_def lastGuessedLetter_def)

theorem C9_newGame_resets_witness:
  "''dog'' \<noteq> [] \<and> 2 \<le> length ladder8
   \<and> newGame ''dog'' \<lparr>currentWord = ''cat'', guessedLetters = seven_wrong\<rparr>
       = \<lparr>currentWord = ''dog'', guessedLetters = []\<rparr>
   \<and> wrongGuessCount (newGame ''dog'' \<lparr>currentWord = ''cat'', guessedLetters = seven_wrong\<rparr>) = 0
   \<and> \<not> isGameOver ladder8 (newGame ''dog'' \<lparr>currentWord = ''cat'', guessedLetters = seven_wrong\<rparr>)"
proof -
  have w: "''dog'' \<noteq> []" by simp
  have n: "2 \<le> length ladder8" by (simp add: ladder8_def)
  show ?thesis
    using w n C9_newGame_resets [OF w n, of "\<lparr>currentWord = ''cat'', guessedLetters = seven_wrong\<rparr>" "\<lambda>n. n"]
    by blast
qed

text \<open>
  C10. With the empty string as secret word, \<open>isGameWon\<close> holds with no guess at all:
  the round begins won, at the first render and after \<open>newGame\<close> alike, and the status
  shown is the win message. The win check itself does not ask for a non-empty word.
\<close>

theorem C10_empty_word_is_won:
  "isGameWon (initial []) \<and> isGameWon (newGame [] s)
   \<and> isGameOver languages (initial [])
   \<and> gameStatus getFarewellText languages (initial []) = Inr YouWin"
  by (simp add: isGameWon_iff initial_def newGame_def isGameOver_def gameStatus_def)

end
